theory Spec2Isabelle
  imports Main "HOL-Library.Word"
begin

unbundle bit_operations_syntax

section \<open>The PCA954x I2C multiplexer/switch driver\<close>

text \<open>
  A shallow embedding of \<^verbatim>\<open>drivers/i2c/muxes/i2c-mux-pca954x.c\<close>. The driver's own state
  is the structure \<^verbatim>\<open>struct pca954x\<close>; every call it makes into the kernel (bus transfers,
  interrupt core, mux core, logging) is recorded as an \<open>event\<close>, in program order, and the
  value the kernel hands back is read from an environment record. A driver function
  is therefore a function from the environment and the old state to its return code, the
  new state and the list of calls it made.
\<close>

subsection \<open>Machine types and kernel constants\<close>

type_synonym u8 = "8 word"
type_synonym u16 = "16 word"
type_synonym u32 = "32 word"

text \<open>
  The error numbers and the two manufacturer identifiers come from kernel headers that are
  not part of the driver file. They are taken as parameters: nothing below depends on their
  values, except where a theorem says so in a hypothesis.
\<close>

record kconsts =
  ENODEV :: int
  ENOMEM :: int
  EINVAL :: int
  EOPNOTSUPP :: int
  I2C_DEVICE_ID_NONE :: u16
  I2C_DEVICE_ID_NXP_SEMICONDUCTORS :: u16

definition PCA954X_MAX_NCHANS :: nat where
  "PCA954X_MAX_NCHANS = 8"

definition PCA954X_IRQ_OFFSET :: nat where
  "PCA954X_IRQ_OFFSET = 4"

subsection \<open>Chip descriptors\<close>

datatype pca_type =
    pca_9540 | pca_9542 | pca_9543 | pca_9544 | pca_9545 | pca_9546
  | pca_9547 | pca_9548 | pca_9846 | pca_9847 | pca_9848 | pca_9849

datatype muxtype = pca954x_ismux | pca954x_isswi

text \<open>\<^verbatim>\<open>struct i2c_device_identity\<close>: a 16-bit manufacturer, a 16-bit part and an 8-bit
  die revision.\<close>

record i2c_device_identity =
  manufacturer_id :: u16
  part_id :: u16
  die_revision :: u8

text \<open>\<^verbatim>\<open>struct chip_desc\<close>. The field \<^verbatim>\<open>id\<close> is called \<open>id'\<close> here, and \<^verbatim>\<open>muxtype\<close> is
  \<open>mtype\<close>, the name of its type being taken. Fields a table entry does not mention are
  zero, as C initialises them.\<close>

record chip_desc =
  nchans :: u8
  enable :: u8
  has_irq :: u8
  mtype :: muxtype
  id' :: i2c_device_identity

definition no_identity :: "kconsts \<Rightarrow> i2c_device_identity" where
  "no_identity K =
     \<lparr>manufacturer_id = I2C_DEVICE_ID_NONE K, part_id = 0, die_revision = 0\<rparr>"

definition nxp_identity :: "kconsts \<Rightarrow> u16 \<Rightarrow> i2c_device_identity" where
  "nxp_identity K p =
     \<lparr>manufacturer_id = I2C_DEVICE_ID_NXP_SEMICONDUCTORS K, part_id = p, die_revision = 0\<rparr>"

fun chips :: "kconsts \<Rightarrow> pca_type \<Rightarrow> chip_desc" where
  "chips K pca_9540 =
     \<lparr>nchans = 2, enable = 0x4, has_irq = 0, mtype = pca954x_ismux, id' = no_identity K\<rparr>"
| "chips K pca_9542 =
     \<lparr>nchans = 2, enable = 0x4, has_irq = 1, mtype = pca954x_ismux, id' = no_identity K\<rparr>"
| "chips K pca_9543 =
     \<lparr>nchans = 2, enable = 0, has_irq = 1, mtype = pca954x_isswi, id' = no_identity K\<rparr>"
| "chips K pca_9544 =
     \<lparr>nchans = 4, enable = 0x4, has_irq = 1, mtype = pca954x_ismux, id' = no_identity K\<rparr>"
| "chips K pca_9545 =
     \<lparr>nchans = 4, enable = 0, has_irq = 1, mtype = pca954x_isswi, id' = no_identity K\<rparr>"
| "chips K pca_9546 =
     \<lparr>nchans = 4, enable = 0, has_irq = 0, mtype = pca954x_isswi, id' = no_identity K\<rparr>"
| "chips K pca_9547 =
     \<lparr>nchans = 8, enable = 0x8, has_irq = 0, mtype = pca954x_ismux, id' = no_identity K\<rparr>"
| "chips K pca_9548 =
     \<lparr>nchans = 8, enable = 0, has_irq = 0, mtype = pca954x_isswi, id' = no_identity K\<rparr>"
| "chips K pca_9846 =
     \<lparr>nchans = 4, enable = 0, has_irq = 0, mtype = pca954x_isswi,
      id' = nxp_identity K 0x10b\<rparr>"
| "chips K pca_9847 =
     \<lparr>nchans = 8, enable = 0x8, has_irq = 0, mtype = pca954x_ismux,
      id' = nxp_identity K 0x108\<rparr>"
| "chips K pca_9848 =
     \<lparr>nchans = 8, enable = 0, has_irq = 0, mtype = pca954x_isswi,
      id' = nxp_identity K 0x10a\<rparr>"
| "chips K pca_9849 =
     \<lparr>nchans = 4, enable = 0x4, has_irq = 0, mtype = pca954x_ismux,
      id' = nxp_identity K 0x109\<rparr>"

subsection \<open>Device state, kernel calls and the environment\<close>

text \<open>An interrupt domain and an I2C client are handles of the kernel; a number stands
  for each.\<close>

type_synonym irq_domain = nat
type_synonym i2c_client = nat

text \<open>\<^verbatim>\<open>struct pca954x\<close>. The pointer \<^verbatim>\<open>chip\<close> is the descriptor it points to, a null
  \<^verbatim>\<open>irq\<close> is \<open>None\<close>, and \<open>lock\<close> says whether the spinlock has been initialised.\<close>

record pca954x =
  chip :: chip_desc
  last_chan :: u8
  deselect :: u8
  client :: i2c_client
  irq :: "irq_domain option"
  irq_mask :: u32
  lock :: bool

text \<open>The calls the driver makes into the kernel, with the arguments that vary.\<close>

datatype event =
    SMBUS_XFER_WRITE u8
  | SMBUS_WRITE_BYTE u8
  | SMBUS_READ_BYTE
  | GET_DEVICE_ID
  | HANDLE_NESTED_IRQ nat
  | GPIOD_GET_RESET
  | UDELAY nat
  | GPIOD_SET_VALUE int
  | DEV_WARN
  | DEV_ERR
  | DEV_INFO nat
  | IRQ_DOMAIN_ADD_LINEAR nat
  | IRQ_CREATE_MAPPING nat
  | IRQ_SET_CHIP_DATA nat
  | IRQ_SET_CHIP_AND_HANDLER nat
  | IRQ_DISPOSE_MAPPING nat
  | IRQ_DOMAIN_REMOVE
  | MUX_ADD_ADAPTER int nat int
  | MUX_DEL_ADAPTERS
  | REQUEST_THREADED_IRQ int

text \<open>The chip has one register, and both write transfers write it. \<open>reg_writes\<close> reads
  the bytes written to it off a list of calls, in order; \<open>added_adapters\<close> reads off the
  channel numbers for which a channel adapter was requested from the mux core.\<close>

fun reg_writes :: "event list \<Rightarrow> u8 list" where
  "reg_writes [] = []"
| "reg_writes (SMBUS_XFER_WRITE v # es) = v # reg_writes es"
| "reg_writes (SMBUS_WRITE_BYTE v # es) = v # reg_writes es"
| "reg_writes (ev # es) = reg_writes es"

fun added_adapters :: "event list \<Rightarrow> nat list" where
  "added_adapters [] = []"
| "added_adapters (MUX_ADD_ADAPTER force chan_id cls # es) = chan_id # added_adapters es"
| "added_adapters (ev # es) = added_adapters es"

datatype gpio_result = GPIO_ERR int | GPIO_NULL | GPIO_DESC

text \<open>\<^verbatim>\<open>struct pca954x_platform_mode\<close> and \<^verbatim>\<open>struct pca954x_platform_data\<close>, from
  \<^verbatim>\<open>linux/platform_data/pca954x.h\<close>. \<^verbatim>\<open>modes\<close> is a pointer into an array: indexing it is
  function application.\<close>

record pca954x_platform_mode =
  adap_id :: int
  deselect_on_exit :: bool
  adap_class :: u32

record pca954x_platform_data =
  modes :: "nat \<Rightarrow> pca954x_platform_mode"
  num_modes :: int

text \<open>What the kernel answers. Return codes are C \<^verbatim>\<open>int\<close>s; the driver only compares
  them with zero and with error numbers, so they are integers here.\<close>

record env =
  smbus_xfer :: "u8 \<Rightarrow> int"
  smbus_write_byte :: "u8 \<Rightarrow> int"
  smbus_read_byte :: int
  get_device_id :: "int \<times> i2c_device_identity"
  irq_linear_revmap :: "irq_domain option \<Rightarrow> nat \<Rightarrow> nat"
  irq_find_mapping :: "irq_domain option \<Rightarrow> nat \<Rightarrow> nat"
  check_functionality :: bool
  mux_alloc :: bool
  reset_gpio :: gpio_result
  of_match_data :: "pca_type option"
  driver_data :: pca_type
  the_client :: i2c_client
  client_irq :: int
  of_node :: bool
  of_idle_disconnect :: bool
  platdata :: "pca954x_platform_data option"
  irq_domain_add_linear :: "irq_domain option"
  irq_create_mapping :: "nat \<Rightarrow> nat"
  mux_add_adapter :: "nat \<Rightarrow> int"
  request_threaded_irq :: int

subsection \<open>Selecting and deselecting a channel\<close>

text \<open>\<^verbatim>\<open>pca954x_reg_write\<close>: one write transfer of \<open>val\<close>; its result is the kernel's.\<close>

definition pca954x_reg_write :: "env \<Rightarrow> u8 \<Rightarrow> int \<times> event list" where
  "pca954x_reg_write e val = (smbus_xfer e val, [SMBUS_XFER_WRITE val])"

text \<open>
  The register value of \<^verbatim>\<open>pca954x_select_chan\<close>. \<^verbatim>\<open>chan\<close> is a \<^verbatim>\<open>u32\<close>; the \<^verbatim>\<open>u8\<close> enable
  pattern is widened to 32 bits for the OR, the constant 1 is shifted as a 32-bit value,
  and the assignment to the \<^verbatim>\<open>u8\<close> \<^verbatim>\<open>regval\<close> keeps the low eight bits. (C leaves a shift by
  32 or more undefined; \<open>push_bit\<close> gives 0 there.)
\<close>

definition select_regval :: "chip_desc \<Rightarrow> u32 \<Rightarrow> u8" where
  "select_regval c chan =
     (if mtype c = pca954x_ismux
      then ucast (chan OR ucast (enable c))
      else ucast (push_bit (unat chan) (1 :: u32)))"

definition pca954x_select_chan ::
  "env \<Rightarrow> pca954x \<Rightarrow> u32 \<Rightarrow> int \<times> pca954x \<times> event list" where
  "pca954x_select_chan e data chan =
     (let regval = select_regval (chip data) chan;
          (ret, evs) = pca954x_reg_write e regval
      in (ret, data\<lparr>last_chan := (if ret < 0 then 0 else regval)\<rparr>, evs))"

text \<open>\<^verbatim>\<open>pca954x_deselect_mux\<close>. The test widens \<^verbatim>\<open>data->deselect\<close> to 32 bits and shifts
  the constant 1 as a 32-bit value, as above. The mux core calls both functions with the
  channel number of an adapter the probe registered, which is below the channel count.\<close>

definition pca954x_deselect_mux ::
  "env \<Rightarrow> pca954x \<Rightarrow> u32 \<Rightarrow> int \<times> pca954x \<times> event list" where
  "pca954x_deselect_mux e data chan =
     (if (ucast (deselect data) :: u32) AND push_bit (unat chan) 1 = 0
      then (0, data, [])
      else (let data' = data\<lparr>last_chan := 0\<rparr>;
                (ret, evs) = pca954x_reg_write e (last_chan data')
            in (ret, data', evs)))"

subsection \<open>The shared interrupt\<close>

datatype irqreturn = IRQ_NONE | IRQ_HANDLED

text \<open>
  The loop of \<^verbatim>\<open>pca954x_irq_handler\<close>, from channel \<open>i\<close> on. \<^verbatim>\<open>BIT(n)\<close> is 1 shifted left
  by \<open>n\<close>; \<open>ret\<close> is not negative here, so the test of \<^verbatim>\<open>ret & BIT(4 + i)\<close> is a test on
  the integer.
\<close>

function irq_dispatch_loop ::
  "env \<Rightarrow> pca954x \<Rightarrow> int \<Rightarrow> nat \<Rightarrow> int \<Rightarrow> event list \<Rightarrow> int \<times> event list" where
  "irq_dispatch_loop e data ret i handled evs =
     (if i < unat (nchans (chip data))
      then (if ret AND push_bit (PCA954X_IRQ_OFFSET + i) 1 \<noteq> 0
            then (let child_irq = irq_linear_revmap e (irq data) i
                  in irq_dispatch_loop e data ret (Suc i) (handled + 1)
                       (evs @ [HANDLE_NESTED_IRQ child_irq]))
            else irq_dispatch_loop e data ret (Suc i) handled evs)
      else (handled, evs))"
  by pat_completeness auto
termination
  by (relation "measure (\<lambda>(e, data, ret, i, handled, evs). unat (nchans (chip data)) - i)")
     auto

declare irq_dispatch_loop.simps [simp del]

definition pca954x_irq_handler :: "env \<Rightarrow> pca954x \<Rightarrow> irqreturn \<times> event list" where
  "pca954x_irq_handler e data =
     (let ret = smbus_read_byte e
      in if ret < 0 then (IRQ_NONE, [SMBUS_READ_BYTE])
         else (let (handled, evs) = irq_dispatch_loop e data ret 0 0 [SMBUS_READ_BYTE]
               in (if handled \<noteq> 0 then IRQ_HANDLED else IRQ_NONE, evs)))"

subsection \<open>Interrupt set-up and clean-up\<close>

function irq_setup_loop ::
  "kconsts \<Rightarrow> env \<Rightarrow> nat \<Rightarrow> nat \<Rightarrow> event list \<Rightarrow> int \<times> event list" where
  "irq_setup_loop K e n c evs =
     (if c < n
      then (let irq_no = irq_create_mapping e c
            in if irq_no = 0
               then (- EINVAL K, evs @ [IRQ_CREATE_MAPPING c, DEV_ERR])
               else irq_setup_loop K e n (Suc c)
                      (evs @ [IRQ_CREATE_MAPPING c, IRQ_SET_CHIP_DATA irq_no,
                              IRQ_SET_CHIP_AND_HANDLER irq_no]))
      else (0, evs))"
  by pat_completeness auto
termination
  by (relation "measure (\<lambda>(K, e, n, c, evs). n - c)") auto

declare irq_setup_loop.simps [simp del]

definition pca954x_irq_setup ::
  "kconsts \<Rightarrow> env \<Rightarrow> pca954x \<Rightarrow> int \<times> pca954x \<times> event list" where
  "pca954x_irq_setup K e data =
     (if has_irq (chip data) = 0 \<or> client_irq e \<le> 0 then (0, data, [])
      else (let data1 = data\<lparr>lock := True\<rparr>;
                data2 = data1\<lparr>irq := irq_domain_add_linear e\<rparr>;
                evs = [IRQ_DOMAIN_ADD_LINEAR (unat (nchans (chip data2)))]
            in if irq data2 = None then (- ENODEV K, data2, evs)
               else (let (ret, evs') = irq_setup_loop K e (unat (nchans (chip data2))) 0 evs
                     in (ret, data2, evs'))))"

function cleanup_loop :: "env \<Rightarrow> pca954x \<Rightarrow> nat \<Rightarrow> event list \<Rightarrow> event list" where
  "cleanup_loop e data c evs =
     (if c < unat (nchans (chip data))
      then (let irq_no = irq_find_mapping e (irq data) c
            in cleanup_loop e data (Suc c) (evs @ [IRQ_DISPOSE_MAPPING irq_no]))
      else evs)"
  by pat_completeness auto
termination
  by (relation "measure (\<lambda>(e, data, c, evs). unat (nchans (chip data)) - c)") auto

declare cleanup_loop.simps [simp del]

definition pca954x_cleanup :: "env \<Rightarrow> pca954x \<Rightarrow> event list" where
  "pca954x_cleanup e data =
     (if irq data \<noteq> None then cleanup_loop e data 0 [] @ [IRQ_DOMAIN_REMOVE] else [])
     @ [MUX_DEL_ADAPTERS]"

subsection \<open>Probe, remove and resume\<close>

text \<open>
  The head of the adapter loop of \<^verbatim>\<open>pca954x_probe\<close>: the forced adapter number, the class
  and the platform data's idle-disconnect flag of channel \<open>num\<close>, or \<open>None\<close> where the loop
  breaks because the platform data configures fewer channels. The \<^verbatim>\<open>unsigned int\<close> class
  is stored in an \<^verbatim>\<open>int\<close>.
\<close>

definition adapter_params :: "env \<Rightarrow> nat \<Rightarrow> (int \<times> int \<times> bool) option" where
  "adapter_params e num =
     (case platdata e of
        None \<Rightarrow> Some (0, 0, False)
      | Some pdata \<Rightarrow>
          if int num < num_modes pdata
          then Some (adap_id (modes pdata num), sint (adap_class (modes pdata num)),
                     deselect_on_exit (modes pdata num))
          else None)"

text \<open>
  The adapter loop, from channel \<open>num\<close> on: it returns the code of the failed
  \<^verbatim>\<open>i2c_mux_add_adapter\<close> or 0, the final \<open>num\<close>, the deselect mask and the calls made.
  The flag is shifted as an \<^verbatim>\<open>int\<close> and the OR is stored back into the \<^verbatim>\<open>u8\<close> mask.
\<close>

function probe_adapters ::
  "env \<Rightarrow> bool \<Rightarrow> nat \<Rightarrow> nat \<Rightarrow> u8 \<Rightarrow> event list \<Rightarrow> int \<times> nat \<times> u8 \<times> event list" where
  "probe_adapters e idle_disconnect_dt n num desel evs =
     (if num < n
      then (case adapter_params e num of
              None \<Rightarrow> (0, num, desel, evs)
            | Some (force, cls, idle_disconnect_pd) \<Rightarrow>
                (let desel' = ucast ((ucast desel :: u32) OR
                        push_bit num (of_bool (idle_disconnect_pd \<or> idle_disconnect_dt)));
                     evs' = evs @ [MUX_ADD_ADAPTER force num cls];
                     ret = mux_add_adapter e num
                 in if ret \<noteq> 0 then (ret, num, desel', evs')
                    else probe_adapters e idle_disconnect_dt n (Suc num) desel' evs'))
      else (0, num, desel, evs))"
  by pat_completeness auto
termination
  by (relation "measure (\<lambda>(e, dt, n, num, desel, evs). n - num)") auto

declare probe_adapters.simps [simp del]

definition prepend_events ::
  "event list \<Rightarrow> int \<times> pca954x option \<times> event list \<Rightarrow> int \<times> pca954x option \<times> event list"
  where
  "prepend_events evs r = (case r of (ret, dev, evs') \<Rightarrow> (ret, dev, evs @ evs'))"

text \<open>
  \<^verbatim>\<open>pca954x_probe\<close> from the write that initialises the register to its end, clean-up
  label included. It returns the return code, the device instance when the probe
  succeeded (the instance is device-managed memory, released when the probe fails) and
  the calls made.
\<close>

definition probe_tail ::
  "kconsts \<Rightarrow> env \<Rightarrow> pca954x \<Rightarrow> int \<times> pca954x option \<times> event list" where
  "probe_tail K e data =
     (if smbus_write_byte e 0 < 0 then (- ENODEV K, None, [SMBUS_WRITE_BYTE 0, DEV_WARN])
      else
       (let data1 = data\<lparr>last_chan := 0\<rparr>;
            idle_disconnect_dt = (of_node e \<and> of_idle_disconnect e);
            (ret, data2, evs_irq) = pca954x_irq_setup K e data1
        in if ret \<noteq> 0
           then (ret, None, [SMBUS_WRITE_BYTE 0] @ evs_irq @ pca954x_cleanup e data2)
           else
            (let (ret, num, desel, evs_ad) =
                   probe_adapters e idle_disconnect_dt (unat (nchans (chip data2))) 0
                     (deselect data2) [];
                 data3 = data2\<lparr>deselect := desel\<rparr>
             in if ret \<noteq> 0
                then (ret, None,
                      [SMBUS_WRITE_BYTE 0] @ evs_irq @ evs_ad @ pca954x_cleanup e data3)
                else if irq data3 \<noteq> None
                then (let ret = request_threaded_irq e;
                          evs_rq = [REQUEST_THREADED_IRQ (client_irq e)]
                      in if ret \<noteq> 0
                         then (ret, None,
                               [SMBUS_WRITE_BYTE 0] @ evs_irq @ evs_ad @ evs_rq
                               @ pca954x_cleanup e data3)
                         else (0, Some data3,
                               [SMBUS_WRITE_BYTE 0] @ evs_irq @ evs_ad @ evs_rq
                               @ [DEV_INFO num]))
                else (0, Some data3,
                      [SMBUS_WRITE_BYTE 0] @ evs_irq @ evs_ad @ [DEV_INFO num]))))"

text \<open>
  The parts of \<^verbatim>\<open>pca954x_probe\<close> before that write. \<open>probe_reset\<close> is the pulse on the
  reset line when there is one. \<open>probe_chip\<close> resolves the descriptor: the match data of
  the device tree table is the address of an entry of \<open>chips\<close>, so the environment gives
  the entry's index, and the fallback is the entry named by the I2C device id.
  \<open>probe_data\<close> is the private data at that point: it comes zeroed from
  \<^verbatim>\<open>i2c_mux_alloc\<close>, and the client and the descriptor have been stored.
\<close>

definition probe_reset :: "gpio_result \<Rightarrow> event list" where
  "probe_reset gpio =
     (if gpio = GPIO_DESC then [UDELAY 1, GPIOD_SET_VALUE 0, UDELAY 1] else [])"

definition probe_chip :: "kconsts \<Rightarrow> env \<Rightarrow> chip_desc" where
  "probe_chip K e =
     (case of_match_data e of
        Some t \<Rightarrow> chips K t
      | None \<Rightarrow> chips K (driver_data e))"

definition probe_data :: "kconsts \<Rightarrow> env \<Rightarrow> pca954x" where
  "probe_data K e =
     \<lparr>chip = probe_chip K e, last_chan = 0, deselect = 0, client = the_client e,
      irq = None, irq_mask = 0, lock = False\<rparr>"

definition pca954x_probe :: "kconsts \<Rightarrow> env \<Rightarrow> int \<times> pca954x option \<times> event list" where
  "pca954x_probe K e =
     (if \<not> check_functionality e then (- ENODEV K, None, [])
      else if \<not> mux_alloc e then (- ENOMEM K, None, [])
      else
       (case reset_gpio e of
          GPIO_ERR err \<Rightarrow> (err, None, [GPIOD_GET_RESET])
        | gpio \<Rightarrow>
           (let evs_gpio = GPIOD_GET_RESET # probe_reset gpio;
                data = probe_data K e
            in if manufacturer_id (id' (chip data)) \<noteq> I2C_DEVICE_ID_NONE K
               then (let (ret, ident) = get_device_id e
                     in if ret \<noteq> 0 \<and> ret \<noteq> - EOPNOTSUPP K
                        then (ret, None, evs_gpio @ [GET_DEVICE_ID])
                        else if ret = 0 \<and>
                                (manufacturer_id ident \<noteq> manufacturer_id (id' (chip data)) \<or>
                                 part_id ident \<noteq> part_id (id' (chip data)))
                        then (- ENODEV K, None, evs_gpio @ [GET_DEVICE_ID, DEV_WARN])
                        else prepend_events (evs_gpio @ [GET_DEVICE_ID]) (probe_tail K e data))
               else prepend_events evs_gpio (probe_tail K e data))))"

definition pca954x_remove :: "env \<Rightarrow> pca954x \<Rightarrow> int \<times> event list" where
  "pca954x_remove e data = (0, pca954x_cleanup e data)"

definition pca954x_resume :: "env \<Rightarrow> pca954x \<Rightarrow> int \<times> pca954x \<times> event list" where
  "pca954x_resume e data =
     (let data' = data\<lparr>last_chan := 0\<rparr>
      in (smbus_write_byte e 0, data', [SMBUS_WRITE_BYTE 0]))"

subsection \<open>A sample environment\<close>

text \<open>
  The usual values of the constants (those of the generic error-number headers and of
  \<^verbatim>\<open>linux/i2c.h\<close>), and a kernel in which every call succeeds, no reset line, interrupt or
  platform data is configured, and the device was matched by name as a PCA9545. The
  examples below vary them.
\<close>

definition linux_consts :: kconsts where
  "linux_consts =
     \<lparr>ENODEV = 19, ENOMEM = 12, EINVAL = 22, EOPNOTSUPP = 95,
      I2C_DEVICE_ID_NONE = 0xffff, I2C_DEVICE_ID_NXP_SEMICONDUCTORS = 0\<rparr>"

definition quiet_env :: env where
  "quiet_env =
     \<lparr>smbus_xfer = (\<lambda>v. 0), smbus_write_byte = (\<lambda>v. 0), smbus_read_byte = 0,
      get_device_id = (0, \<lparr>manufacturer_id = 0, part_id = 0, die_revision = 0\<rparr>),
      irq_linear_revmap = (\<lambda>d hw. 100 + hw), irq_find_mapping = (\<lambda>d hw. 100 + hw),
      check_functionality = True, mux_alloc = True, reset_gpio = GPIO_NULL,
      of_match_data = None, driver_data = pca_9545, the_client = 1, client_irq = 0,
      of_node = False, of_idle_disconnect = False, platdata = None,
      irq_domain_add_linear = Some 1, irq_create_mapping = (\<lambda>hw. 100 + hw),
      mux_add_adapter = (\<lambda>chan_id. 0), request_threaded_irq = 0\<rparr>"

definition sample_dev :: "pca_type \<Rightarrow> pca954x" where
  "sample_dev t =
     \<lparr>chip = chips linux_consts t, last_chan = 0, deselect = 0, client = 1,
      irq = None, irq_mask = 0, lock = False\<rparr>"

text \<open>Platform data that configures three channels, and a kernel in which the device
  was matched by name as a PCA9848, a part with an identity.\<close>

definition pdata3 :: pca954x_platform_data where
  "pdata3 =
     \<lparr>modes = (\<lambda>n. \<lparr>adap_id = 10 + int n, deselect_on_exit = (n = 1), adap_class = 0\<rparr>),
      num_modes = 3\<rparr>"

definition nxp_env :: env where
  "nxp_env = quiet_env\<lparr>driver_data := pca_9848\<rparr>"

section \<open>Properties\<close>

subsection \<open>The catalogue and the register value\<close>

lemma chips_nchans: "unat (nchans (chips K t)) \<in> {2, 4, 8}"
  by (cases t) simp_all

lemma catalog_nchans_le: "unat (nchans (chips K t)) \<le> 8"
  using chips_nchans [of K t] by auto

lemma unat_u8_lt: "unat (w :: u8) < 256"
  using unsigned_less [of w, where ?'a = nat] by simp

lemma unat_widen_u8: "unat (ucast (w :: u8) :: u32) = unat w"
proof -
  have "unat (ucast w :: u32) = take_bit 32 (unat w)"
    by (simp only: unsigned_ucast_eq len_bit0 len_num1 mult_1_right) simp
  also have "\<dots> = unat w"
    by (rule take_bit_nat_eq_self) (use unat_u8_lt [of w] in simp)
  finally show ?thesis .
qed

lemma unat_narrow_u32: "unat (ucast (w :: u32) :: u8) = take_bit 8 (unat w)"
  by (simp only: unsigned_ucast_eq) simp

lemma regval_mux:
  assumes "mtype d = pca954x_ismux" "unat chan < 256"
  shows "unat (select_regval d chan) = unat chan OR unat (enable d)"
proof -
  have "select_regval d chan = ucast (chan OR ucast (enable d))"
    using assms(1) by (simp add: select_regval_def)
  then have "unat (select_regval d chan) = take_bit 8 (unat (chan OR ucast (enable d)))"
    by (simp only: unat_narrow_u32)
  also have "\<dots> = take_bit 8 (unat chan OR unat (enable d))"
    by (simp only: unsigned_or_eq unat_widen_u8)
  also have "\<dots> = take_bit 8 (unat chan) OR take_bit 8 (unat (enable d))"
    by (simp only: take_bit_or)
  also have "take_bit 8 (unat chan) = unat chan"
    by (rule take_bit_nat_eq_self) (use assms(2) in simp)
  also have "take_bit 8 (unat (enable d)) = unat (enable d)"
    by (rule take_bit_nat_eq_self) (use unat_u8_lt [of "enable d"] in simp)
  finally show ?thesis .
qed

lemma regval_swi:
  assumes "mtype d = pca954x_isswi" "unat chan < 8"
  shows "unat (select_regval d chan) = 2 ^ unat chan"
proof -
  have lt: "(2::nat) ^ unat chan < 2 ^ 8"
    using assms(2) by (intro power_strict_increasing) simp_all
  have "select_regval d chan = ucast (push_bit (unat chan) (1::u32))"
    using assms(1) by (simp only: select_regval_def) simp
  then have "unat (select_regval d chan) = take_bit 8 (unat (push_bit (unat chan) (1::u32)))"
    by (simp only: unat_narrow_u32)
  also have "unat (push_bit (unat chan) (1::u32)) = take_bit 32 (push_bit (unat chan) (unat (1::u32)))"
    by (simp only: unsigned_push_bit_eq) simp
  also have "\<dots> = take_bit 32 ((2::nat) ^ unat chan)"
    by (simp add: push_bit_eq_mult)
  also have "\<dots> = 2 ^ unat chan"
    using lt by (intro take_bit_nat_eq_self) simp
  also have "take_bit 8 ((2::nat) ^ unat chan) = 2 ^ unat chan"
    using lt by (intro take_bit_nat_eq_self) simp
  finally show ?thesis .
qed

text \<open>
  Claim C10. For every chip of the catalogue and every channel \<open>c\<close> below its channel
  count, the register value of a selection is not 0, the value of the disconnected state;
  the enable pattern of every mux of the catalogue is \<open>0x4\<close> or \<open>0x8\<close>.
\<close>

theorem select_regval_nonzero:
  assumes "unat c < unat (nchans (chips K t))"
  shows "(mtype (chips K t) = pca954x_ismux \<longrightarrow> enable (chips K t) \<in> {0x4, 0x8}) \<and>
         select_regval (chips K t) c \<noteq> 0"
proof -
  have c8: "unat c < 8"
    using assms catalog_nchans_le [of K t] by simp
  have en: "mtype (chips K t) = pca954x_ismux \<Longrightarrow> enable (chips K t) \<in> {0x4, 0x8}"
    by (cases t) simp_all
  have "unat (select_regval (chips K t) c) \<noteq> 0"
  proof (cases "mtype (chips K t)")
    case pca954x_ismux
    with en have "unat (enable (chips K t)) \<noteq> 0" by auto
    then show ?thesis
      using pca954x_ismux c8 by (simp add: regval_mux or_eq_0_iff)
  next
    case pca954x_isswi
    then show ?thesis
      using c8 by (simp add: regval_swi)
  qed
  then have "select_regval (chips K t) c \<noteq> 0"
    by (simp add: unat_0_iff)
  with en show ?thesis by blast
qed

theorem select_regval_nonzero_witness:
  "unat (3 :: u32) < unat (nchans (chips linux_consts pca_9849)) \<and>
   mtype (chips linux_consts pca_9849) = pca954x_ismux \<and>
   enable (chips linux_consts pca_9849) \<in> {0x4, 0x8} \<and>
   select_regval (chips linux_consts pca_9849) 3 \<noteq> 0"
  using select_regval_nonzero [of 3 linux_consts pca_9849]
  by simp

subsection \<open>Selection and deselection\<close>

lemma select_chan_events:
  "snd (snd (pca954x_select_chan e data chan)) = [SMBUS_XFER_WRITE (select_regval (chip data) chan)]"
  by (simp add: pca954x_select_chan_def pca954x_reg_write_def Let_def)

lemma select_chan_ret:
  "fst (pca954x_select_chan e data chan) = smbus_xfer e (select_regval (chip data) chan)"
  by (simp add: pca954x_select_chan_def pca954x_reg_write_def Let_def)

lemma select_chan_data:
  "fst (snd (pca954x_select_chan e data chan)) =
     data\<lparr>last_chan := (if smbus_xfer e (select_regval (chip data) chan) < 0 then 0
                         else select_regval (chip data) chan)\<rparr>"
  by (simp add: pca954x_select_chan_def pca954x_reg_write_def Let_def)

lemma deselect_test:
  "((ucast (d :: u8) :: u32) AND 2 ^ n = 0) \<longleftrightarrow> \<not> bit d n"
proof -
  have "((ucast d :: u32) AND 2 ^ n = 0) \<longleftrightarrow> \<not> bit (ucast d :: u32) n"
    by (rule and_exp_eq_0_iff_not_bit)
  moreover have "bit (ucast d :: u32) n \<longleftrightarrow> bit d n"
    by (auto simp: bit_ucast_iff dest: bit_imp_le_length)
  ultimately show ?thesis by simp
qed

lemma deselect_idle:
  "\<not> bit (deselect data) (unat chan) \<Longrightarrow> pca954x_deselect_mux e data chan = (0, data, [])"
  by (simp add: pca954x_deselect_mux_def deselect_test)

lemma deselect_marked:
  "bit (deselect data) (unat chan) \<Longrightarrow>
   pca954x_deselect_mux e data chan = (smbus_xfer e 0, data\<lparr>last_chan := 0\<rparr>, [SMBUS_XFER_WRITE 0])"
  by (simp add: pca954x_deselect_mux_def deselect_test pca954x_reg_write_def Let_def)

text \<open>
  Claim C1. For every chip of the catalogue and every channel \<open>c\<close> below its channel
  count, the one byte that \<^verbatim>\<open>pca954x_select_chan\<close> writes has the value \<open>c OR enable\<close> when
  the chip is a mux and \<open>2 ^ c\<close>, that is \<^verbatim>\<open>1 << c\<close>, when it is a switch: neither the
  32-bit arithmetic nor the cut to eight bits changes the value.
\<close>

theorem select_regval_encoding:
  assumes "unat c < unat (nchans (chips K t))"
  shows "map unat (reg_writes (snd (snd (pca954x_select_chan e (data\<lparr>chip := chips K t\<rparr>) c)))) =
         [if mtype (chips K t) = pca954x_ismux then unat c OR unat (enable (chips K t))
          else 2 ^ unat c]"
proof -
  have c8: "unat c < 8"
    using assms catalog_nchans_le [of K t] by simp
  show ?thesis
  proof (cases "mtype (chips K t)")
    case pca954x_ismux
    then show ?thesis
      using c8 by (simp add: select_chan_events regval_mux)
  next
    case pca954x_isswi
    then show ?thesis
      using c8 by (simp add: select_chan_events regval_swi)
  qed
qed

theorem select_regval_encoding_witness:
  "unat (5 :: u32) < unat (nchans (chips linux_consts pca_9547)) \<and>
   map unat (reg_writes (snd (snd (pca954x_select_chan quiet_env
     ((sample_dev pca_9540)\<lparr>chip := chips linux_consts pca_9547\<rparr>) 5)))) = [0xD] \<and>
   unat (2 :: u32) < unat (nchans (chips linux_consts pca_9545)) \<and>
   map unat (reg_writes (snd (snd (pca954x_select_chan quiet_env
     ((sample_dev pca_9540)\<lparr>chip := chips linux_consts pca_9545\<rparr>) 2)))) = [4]"
  using select_regval_encoding [of 5 linux_consts pca_9547 quiet_env "sample_dev pca_9540"]
        select_regval_encoding [of 2 linux_consts pca_9545 quiet_env "sample_dev pca_9540"]
  by simp

text \<open>
  Claim C4. Every call of \<^verbatim>\<open>pca954x_select_chan\<close> makes exactly one call into the kernel,
  the write of the computed register value, whatever \<open>last_chan\<close> holds; in particular
  when \<open>last_chan\<close> already equals that value.
\<close>

theorem select_always_writes_once:
  "snd (snd (pca954x_select_chan e data chan)) =
     [SMBUS_XFER_WRITE (select_regval (chip data) chan)] \<and>
   length (reg_writes (snd (snd (pca954x_select_chan e data chan)))) = 1 \<and>
   reg_writes (snd (snd (pca954x_select_chan e
       (data\<lparr>last_chan := select_regval (chip data) chan\<rparr>) chan))) =
     [select_regval (chip data) chan]"
  by (simp add: select_chan_events)

text \<open>
  Claim C5. When bit \<open>c\<close> of the deselect mask is clear, \<^verbatim>\<open>pca954x_deselect_mux\<close> returns 0
  and calls nothing; when the bit is set, it writes the byte 0 to the register, once.
\<close>

theorem deselect_mux_bus_writes:
  "(\<not> bit (deselect data) (unat c) \<longrightarrow>
      fst (pca954x_deselect_mux e data c) = 0 \<and>
      snd (snd (pca954x_deselect_mux e data c)) = []) \<and>
   (bit (deselect data) (unat c) \<longrightarrow>
      reg_writes (snd (snd (pca954x_deselect_mux e data c))) = [0])"
  by (simp add: deselect_idle deselect_marked)

theorem deselect_mux_bus_writes_witness:
  "\<not> bit (deselect ((sample_dev pca_9545)\<lparr>deselect := 4\<rparr>)) (unat (1 :: u32)) \<and>
   fst (pca954x_deselect_mux quiet_env ((sample_dev pca_9545)\<lparr>deselect := 4\<rparr>) 1) = 0 \<and>
   snd (snd (pca954x_deselect_mux quiet_env ((sample_dev pca_9545)\<lparr>deselect := 4\<rparr>) 1)) = [] \<and>
   bit (deselect ((sample_dev pca_9545)\<lparr>deselect := 4\<rparr>)) (unat (2 :: u32)) \<and>
   reg_writes (snd (snd (pca954x_deselect_mux quiet_env
     ((sample_dev pca_9545)\<lparr>deselect := 4\<rparr>) 2))) = [0]"
  using deselect_mux_bus_writes [of "(sample_dev pca_9545)\<lparr>deselect := 4\<rparr>" 1 quiet_env]
        deselect_mux_bus_writes [of "(sample_dev pca_9545)\<lparr>deselect := 4\<rparr>" 2 quiet_env]
  by simp

text \<open>
  Claim C9. When bit \<open>c\<close> of the deselect mask is clear, \<^verbatim>\<open>pca954x_deselect_mux\<close> leaves
  the whole device state, \<open>last_chan\<close> included, as it was.
\<close>

theorem deselect_idle_frame:
  "\<not> bit (deselect data) (unat c) \<Longrightarrow> fst (snd (pca954x_deselect_mux e data c)) = data"
  by (simp add: deselect_idle)

theorem deselect_idle_frame_witness:
  "\<not> bit (deselect ((sample_dev pca_9545)\<lparr>deselect := 4, last_chan := 8\<rparr>)) (unat (1 :: u32)) \<and>
   last_chan (fst (snd (pca954x_deselect_mux quiet_env
     ((sample_dev pca_9545)\<lparr>deselect := 4, last_chan := 8\<rparr>) 1))) = 8"
  using deselect_idle_frame [of "(sample_dev pca_9545)\<lparr>deselect := 4, last_chan := 8\<rparr>" 1 quiet_env]
  by simp

text \<open>
  Claim C2, amended. When \<^verbatim>\<open>pca954x_select_chan\<close> or \<^verbatim>\<open>pca954x_deselect_mux\<close> returns a
  negative code (only the bus write can produce one), \<open>last_chan\<close> is 0 afterwards. When
  the write of a selection succeeds, \<open>last_chan\<close> is the register value computed for the
  channel, which is the byte written. When bit \<open>c\<close> of the deselect mask is set,
  \<^verbatim>\<open>pca954x_deselect_mux\<close> writes 0 once, returns the result of that write and leaves
  \<open>last_chan\<close> at 0, whatever it held before and whether the write succeeded or not.
\<close>

theorem last_chan_after_write:
  "(fst (pca954x_select_chan e data c) < 0 \<longrightarrow>
      last_chan (fst (snd (pca954x_select_chan e data c))) = 0) \<and>
   (0 \<le> fst (pca954x_select_chan e data c) \<longrightarrow>
      last_chan (fst (snd (pca954x_select_chan e data c))) = select_regval (chip data) c \<and>
      reg_writes (snd (snd (pca954x_select_chan e data c))) =
        [last_chan (fst (snd (pca954x_select_chan e data c)))]) \<and>
   (fst (pca954x_deselect_mux e data c) < 0 \<longrightarrow>
      last_chan (fst (snd (pca954x_deselect_mux e data c))) = 0) \<and>
   (bit (deselect data) (unat c) \<longrightarrow>
      fst (pca954x_deselect_mux e data c) = smbus_xfer e 0 \<and>
      reg_writes (snd (snd (pca954x_deselect_mux e data c))) = [0] \<and>
      last_chan (fst (snd (pca954x_deselect_mux e data c))) = 0)"
proof (cases "bit (deselect data) (unat c)")
  case True
  then show ?thesis
    by (simp add: select_chan_events select_chan_ret select_chan_data deselect_marked)
next
  case False
  then show ?thesis
    by (simp add: select_chan_events select_chan_ret select_chan_data deselect_idle)
qed

theorem last_chan_after_write_witness:
  "fst (pca954x_select_chan (quiet_env\<lparr>smbus_xfer := \<lambda>v. - 5\<rparr>)
          ((sample_dev pca_9545)\<lparr>last_chan := 2, deselect := 4\<rparr>) 2) < 0 \<and>
   last_chan (fst (snd (pca954x_select_chan (quiet_env\<lparr>smbus_xfer := \<lambda>v. - 5\<rparr>)
          ((sample_dev pca_9545)\<lparr>last_chan := 2, deselect := 4\<rparr>) 2))) = 0 \<and>
   bit (deselect ((sample_dev pca_9545)\<lparr>last_chan := 2, deselect := 4\<rparr>)) (unat (2 :: u32)) \<and>
   fst (pca954x_deselect_mux (quiet_env\<lparr>smbus_xfer := \<lambda>v. - 5\<rparr>)
          ((sample_dev pca_9545)\<lparr>last_chan := 2, deselect := 4\<rparr>) 2) < 0 \<and>
   last_chan (fst (snd (pca954x_deselect_mux (quiet_env\<lparr>smbus_xfer := \<lambda>v. - 5\<rparr>)
          ((sample_dev pca_9545)\<lparr>last_chan := 2, deselect := 4\<rparr>) 2))) = 0 \<and>
   0 \<le> fst (pca954x_select_chan quiet_env ((sample_dev pca_9545)\<lparr>deselect := 4\<rparr>) 2) \<and>
   reg_writes (snd (snd (pca954x_select_chan quiet_env
          ((sample_dev pca_9545)\<lparr>deselect := 4\<rparr>) 2))) = [4] \<and>
   last_chan (fst (snd (pca954x_select_chan quiet_env
          ((sample_dev pca_9545)\<lparr>deselect := 4\<rparr>) 2))) = 4 \<and>
   bit (deselect ((sample_dev pca_9545)\<lparr>last_chan := 4, deselect := 4\<rparr>)) (unat (2 :: u32)) \<and>
   pca954x_deselect_mux quiet_env ((sample_dev pca_9545)\<lparr>last_chan := 4, deselect := 4\<rparr>) 2 =
     (0, (sample_dev pca_9545)\<lparr>last_chan := 0, deselect := 4\<rparr>, [SMBUS_XFER_WRITE 0])"
  using last_chan_after_write [of "quiet_env\<lparr>smbus_xfer := \<lambda>v. - 5\<rparr>"
          "(sample_dev pca_9545)\<lparr>last_chan := 2, deselect := 4\<rparr>" 2]
        last_chan_after_write [of quiet_env "(sample_dev pca_9545)\<lparr>deselect := 4\<rparr>" 2]
        last_chan_after_write [of quiet_env "(sample_dev pca_9545)\<lparr>last_chan := 4, deselect := 4\<rparr>" 2]
  by (simp add: pca954x_select_chan_def pca954x_deselect_mux_def pca954x_reg_write_def
        select_regval_def quiet_env_def sample_dev_def)

text \<open>
  The claim as worded also promises that a deselection that succeeds leaves \<open>last_chan\<close>
  at 0. It does not when the channel is not marked in the deselect mask: on a PCA9545
  with only channel 2 marked, selecting channel 1 writes 2 and stores it, and the
  deselection of channel 1 that follows returns 0, writes nothing and leaves \<open>last_chan\<close>
  at 2.
\<close>

theorem deselect_success_last_chan_counterexample:
  "fst (pca954x_select_chan quiet_env ((sample_dev pca_9545)\<lparr>deselect := 4\<rparr>) 1) = 0 \<and>
   fst (pca954x_deselect_mux quiet_env
          (fst (snd (pca954x_select_chan quiet_env
             ((sample_dev pca_9545)\<lparr>deselect := 4\<rparr>) 1))) 1) = 0 \<and>
   last_chan (fst (snd (pca954x_deselect_mux quiet_env
          (fst (snd (pca954x_select_chan quiet_env
             ((sample_dev pca_9545)\<lparr>deselect := 4\<rparr>) 1))) 1))) = 2 \<and>
   last_chan (fst (snd (pca954x_deselect_mux quiet_env
          (fst (snd (pca954x_select_chan quiet_env
             ((sample_dev pca_9545)\<lparr>deselect := 4\<rparr>) 1))) 1))) \<noteq> 0"
  by (simp add: pca954x_select_chan_def pca954x_deselect_mux_def pca954x_reg_write_def
        select_regval_def quiet_env_def sample_dev_def)

subsection \<open>Interrupt dispatch\<close>

lemma irq_dispatch_loop_eq:
  "irq_dispatch_loop e data ret i handled evs =
     (handled + int (length (filter (\<lambda>j. ret AND push_bit (PCA954X_IRQ_OFFSET + j) 1 \<noteq> 0) [i..<unat (nchans (chip data))])),
      evs @ map (\<lambda>j. HANDLE_NESTED_IRQ (irq_linear_revmap e (irq data) j))
              (filter (\<lambda>j. ret AND push_bit (PCA954X_IRQ_OFFSET + j) 1 \<noteq> 0) [i..<unat (nchans (chip data))]))"
proof (induction e data ret i handled evs rule: irq_dispatch_loop.induct)
  case (1 e data ret i handled evs)
  show ?case
  proof (cases "i < unat (nchans (chip data))")
    case False
    then show ?thesis
      by (subst irq_dispatch_loop.simps) simp
  next
    case True
    then have upt: "[i..<unat (nchans (chip data))] = i # [Suc i..<unat (nchans (chip data))]"
      by (rule upt_conv_Cons)
    show ?thesis
    proof (cases "ret AND push_bit (PCA954X_IRQ_OFFSET + i) 1 \<noteq> 0")
      case set: True
      show ?thesis
        apply (subst irq_dispatch_loop.simps)
        apply (subst upt)+
        using True set "1.IH"(1) [OF True set refl]
        apply (simp add: Let_def)
        done
    next
      case clear: False
      show ?thesis
        apply (subst irq_dispatch_loop.simps)
        apply (subst upt)+
        using True clear "1.IH"(2) [OF True clear]
        apply (simp add: Let_def)
        done
    qed
  qed
qed

lemma status_bit_test:
  "(uint (s :: u8) AND 2 ^ (PCA954X_IRQ_OFFSET + j) \<noteq> 0) \<longleftrightarrow> bit s (4 + j)"
proof -
  have "(uint s AND 2 ^ (4 + j) = 0) \<longleftrightarrow> \<not> bit (uint s) (4 + j)"
    by (rule and_exp_eq_0_iff_not_bit)
  moreover have "bit (uint s) (4 + j) \<longleftrightarrow> bit s (4 + j)"
    by (auto simp: bit_uint_iff dest: bit_imp_le_length)
  ultimately show ?thesis
    by (simp add: PCA954X_IRQ_OFFSET_def)
qed

text \<open>
  Claim C3. When the status read fails, \<^verbatim>\<open>pca954x_irq_handler\<close> returns \<open>IRQ_NONE\<close> and
  dispatches nothing. When it yields the status byte \<open>s\<close>, the nested interrupts
  dispatched are those of the channels \<open>i\<close> below the channel count with bit \<open>4 + i\<close> of
  \<open>s\<close> set, each once, in ascending order, and the handler returns \<open>IRQ_HANDLED\<close> exactly
  when the set of these channels is not empty, \<open>IRQ_NONE\<close> otherwise.
\<close>

theorem irq_handler_dispatch:
  "(smbus_read_byte e < 0 \<longrightarrow> pca954x_irq_handler e data = (IRQ_NONE, [SMBUS_READ_BYTE])) \<and>
   (smbus_read_byte e = uint (s :: u8) \<longrightarrow>
      snd (pca954x_irq_handler e data) =
        SMBUS_READ_BYTE #
        map (\<lambda>i. HANDLE_NESTED_IRQ (irq_linear_revmap e (irq data) i))
            (filter (\<lambda>i. bit s (4 + i)) [0..<unat (nchans (chip data))]) \<and>
      (fst (pca954x_irq_handler e data) = IRQ_HANDLED \<longleftrightarrow>
         {i. i < unat (nchans (chip data)) \<and> bit s (4 + i)} \<noteq> {}) \<and>
      (fst (pca954x_irq_handler e data) = IRQ_NONE \<longleftrightarrow>
         {i. i < unat (nchans (chip data)) \<and> bit s (4 + i)} = {}))"
proof (intro conjI impI)
  assume "smbus_read_byte e < 0"
  then show "pca954x_irq_handler e data = (IRQ_NONE, [SMBUS_READ_BYTE])"
    by (simp add: pca954x_irq_handler_def)
next
  assume r: "smbus_read_byte e = uint s"
  let ?n = "unat (nchans (chip data))"
  let ?on = "filter (\<lambda>i. bit s (4 + i)) [0..<?n]"
  have h: "pca954x_irq_handler e data =
      (if ?on \<noteq> [] then IRQ_HANDLED else IRQ_NONE,
       SMBUS_READ_BYTE # map (\<lambda>i. HANDLE_NESTED_IRQ (irq_linear_revmap e (irq data) i)) ?on)"
    using r by (simp add: pca954x_irq_handler_def irq_dispatch_loop_eq status_bit_test Let_def
                    )
  have s: "set ?on = {i. i < ?n \<and> bit s (4 + i)}"
    by auto
  have ne: "?on \<noteq> [] \<longleftrightarrow> {i. i < ?n \<and> bit s (4 + i)} \<noteq> {}"
    using s by (metis set_empty)
  show "snd (pca954x_irq_handler e data) =
        SMBUS_READ_BYTE # map (\<lambda>i. HANDLE_NESTED_IRQ (irq_linear_revmap e (irq data) i)) ?on"
    by (simp add: h)
  show "fst (pca954x_irq_handler e data) = IRQ_HANDLED \<longleftrightarrow>
         {i. i < ?n \<and> bit s (4 + i)} \<noteq> {}"
    using ne by (simp add: h)
  show "fst (pca954x_irq_handler e data) = IRQ_NONE \<longleftrightarrow>
         {i. i < ?n \<and> bit s (4 + i)} = {}"
    using ne by (simp add: h)
qed

lemma upt4: "[0..<4] = [0, 1, 2, Suc 2]"
  by (simp add: upt_conv_Cons numeral_eq_Suc)

theorem irq_handler_dispatch_witness:
  "smbus_read_byte (quiet_env\<lparr>smbus_read_byte := - 5\<rparr>) < 0 \<and>
   pca954x_irq_handler (quiet_env\<lparr>smbus_read_byte := - 5\<rparr>) (sample_dev pca_9545) =
     (IRQ_NONE, [SMBUS_READ_BYTE]) \<and>
   smbus_read_byte (quiet_env\<lparr>smbus_read_byte := 0xD0\<rparr>) = uint (0xD0 :: u8) \<and>
   pca954x_irq_handler (quiet_env\<lparr>smbus_read_byte := 0xD0\<rparr>) (sample_dev pca_9545) =
     (IRQ_HANDLED, [SMBUS_READ_BYTE, HANDLE_NESTED_IRQ 100, HANDLE_NESTED_IRQ 102,
                    HANDLE_NESTED_IRQ 103])"
proof -
  have "bit (0xD0 :: u8) (4 + 0)"
    by simp
  then have ex: "\<exists>x<4::nat. bit (0xD0 :: u8) (4 + x)"
    by (intro exI [of _ 0]) simp
  show ?thesis
    using ex
      irq_handler_dispatch [of "quiet_env\<lparr>smbus_read_byte := - 5\<rparr>" "sample_dev pca_9545"]
      irq_handler_dispatch [of "quiet_env\<lparr>smbus_read_byte := 0xD0\<rparr>" "sample_dev pca_9545" "0xD0"]
    by (simp add: quiet_env_def sample_dev_def upt4 prod_eq_iff)
qed

subsection \<open>Probe and resume\<close>

lemma added_adapters_append [simp]:
  "added_adapters (xs @ ys) = added_adapters xs @ added_adapters ys"
  by (induction xs rule: added_adapters.induct) simp_all

lemma reg_writes_append [simp]:
  "reg_writes (xs @ ys) = reg_writes xs @ reg_writes ys"
  by (induction xs rule: reg_writes.induct) simp_all

lemma irq_setup_loop_added:
  "added_adapters (snd (irq_setup_loop K e n c evs)) = added_adapters evs"
proof (induction K e n c evs rule: irq_setup_loop.induct)
  case (1 K e n c evs)
  show ?case
  proof (cases "c < n \<and> irq_create_mapping e c \<noteq> 0")
    case True
    then show ?thesis
      using "1.IH" [OF _ refl] by (subst irq_setup_loop.simps) (simp add: Let_def)
  next
    case False
    then show ?thesis
      by (subst irq_setup_loop.simps) (auto simp: Let_def)
  qed
qed

lemma cleanup_loop_added:
  "added_adapters (cleanup_loop e data c evs) = added_adapters evs"
proof (induction e data c evs rule: cleanup_loop.induct)
  case (1 e data c evs)
  show ?case
  proof (cases "c < unat (nchans (chip data))")
    case True
    then show ?thesis
      using "1.IH" [OF True refl] by (subst cleanup_loop.simps) (simp add: Let_def)
  next
    case False
    then show ?thesis
      by (subst cleanup_loop.simps) simp
  qed
qed

lemma cleanup_added: "added_adapters (pca954x_cleanup e data) = []"
  by (simp add: pca954x_cleanup_def cleanup_loop_added)

lemma irq_setup_added:
  "added_adapters (snd (snd (pca954x_irq_setup K e data))) = []"
  by (simp add: pca954x_irq_setup_def Let_def case_prod_beta irq_setup_loop_added)

lemma irq_setup_chip:
  "chip (fst (snd (pca954x_irq_setup K e data))) = chip data"
  by (simp add: pca954x_irq_setup_def Let_def case_prod_beta)

lemma probe_adapters_count:
  "length (added_adapters (snd (snd (snd (probe_adapters e dt n num desel evs)))))
     \<le> length (added_adapters evs) + (n - num)"
proof (induction e dt n num desel evs rule: probe_adapters.induct)
  case (1 e dt n num desel evs)
  show ?case
  proof (cases "num < n")
    case False
    then show ?thesis
      by (subst probe_adapters.simps) simp
  next
    case True
    show ?thesis
    proof (cases "adapter_params e num")
      case None
      then show ?thesis
        using True by (subst probe_adapters.simps) simp
    next
      case (Some prm)
      obtain force cls pd where prm: "prm = (force, cls, pd)"
        by (cases prm)
      show ?thesis
      proof (cases "mux_add_adapter e num = 0")
        case False
        then show ?thesis
          using True Some prm
          by (subst probe_adapters.simps) (simp add: Let_def)
      next
        case ok: True
        have "length (added_adapters (snd (snd (snd (probe_adapters e dt n (Suc num)
                 (ucast ((ucast desel :: u32) OR push_bit num (of_bool (pd \<or> dt))))
                 (evs @ [MUX_ADD_ADAPTER force num cls]))))))
              \<le> length (added_adapters (evs @ [MUX_ADD_ADAPTER force num cls])) + (n - Suc num)"
          using "1.IH" [OF True Some prm [symmetric] refl refl refl refl] ok
          by simp
        then show ?thesis
          using True Some prm ok
          by (subst probe_adapters.simps) (simp add: Let_def)
      qed
    qed
  qed
qed

lemma probe_adapters_count_pdata:
  "platdata e = Some pdata \<Longrightarrow>
   length (added_adapters (snd (snd (snd (probe_adapters e dt n num desel evs)))))
     \<le> length (added_adapters evs) + (nat (num_modes pdata) - num)"
proof (induction e dt n num desel evs rule: probe_adapters.induct)
  case (1 e dt n num desel evs)
  show ?case
  proof (cases "num < n")
    case False
    then show ?thesis
      by (subst probe_adapters.simps) simp
  next
    case True
    show ?thesis
    proof (cases "adapter_params e num")
      case None
      then show ?thesis
        using True by (subst probe_adapters.simps) simp
    next
      case (Some prm)
      obtain force cls pd where prm: "prm = (force, cls, pd)"
        by (cases prm)
      have lt: "num < nat (num_modes pdata)"
        using Some "1.prems" by (auto simp: adapter_params_def split: if_splits)
      show ?thesis
      proof (cases "mux_add_adapter e num = 0")
        case False
        then show ?thesis
          using True Some prm lt
          by (subst probe_adapters.simps) (simp add: Let_def)
      next
        case ok: True
        have "length (added_adapters (snd (snd (snd (probe_adapters e dt n (Suc num)
                 (ucast ((ucast desel :: u32) OR push_bit num (of_bool (pd \<or> dt))))
                 (evs @ [MUX_ADD_ADAPTER force num cls]))))))
              \<le> length (added_adapters (evs @ [MUX_ADD_ADAPTER force num cls]))
                  + (nat (num_modes pdata) - Suc num)"
          using "1.IH" [OF True Some prm [symmetric] refl refl refl refl] ok "1.prems"
          by simp
        then show ?thesis
          using True Some prm ok lt
          by (subst probe_adapters.simps) (simp add: Let_def)
      qed
    qed
  qed
qed

lemma probe_tail_added:
  "added_adapters (snd (snd (probe_tail K e data))) =
     (if smbus_write_byte e 0 < 0 \<or> fst (pca954x_irq_setup K e (data\<lparr>last_chan := 0\<rparr>)) \<noteq> 0
      then []
      else added_adapters (snd (snd (snd (probe_adapters e (of_node e \<and> of_idle_disconnect e)
             (unat (nchans (chip data))) 0 (deselect (fst (snd (pca954x_irq_setup K e (data\<lparr>last_chan := 0\<rparr>))))) [])))))"
  using irq_setup_chip [of K e "data\<lparr>last_chan := 0\<rparr>"]
  by (simp add: probe_tail_def Let_def case_prod_beta cleanup_added irq_setup_added)

lemma probe_tail_count:
  "length (added_adapters (snd (snd (probe_tail K e data)))) \<le> unat (nchans (chip data))"
  using probe_adapters_count [of e "of_node e \<and> of_idle_disconnect e" "unat (nchans (chip data))" 0
      "deselect (fst (snd (pca954x_irq_setup K e (data\<lparr>last_chan := 0\<rparr>))))" "[]"]
  by (simp add: probe_tail_added)

lemma probe_tail_count_pdata:
  "platdata e = Some pdata \<Longrightarrow>
   length (added_adapters (snd (snd (probe_tail K e data)))) \<le> nat (num_modes pdata)"
  using probe_adapters_count_pdata [of e pdata "of_node e \<and> of_idle_disconnect e" "unat (nchans (chip data))" 0
      "deselect (fst (snd (pca954x_irq_setup K e (data\<lparr>last_chan := 0\<rparr>))))" "[]"]
  by (simp add: probe_tail_added)

lemma probe_chip_catalog: "\<exists>t. probe_chip K e = chips K t"
  by (auto simp: probe_chip_def split: option.splits)

lemma probe_added:
  "added_adapters (snd (snd (pca954x_probe K e))) = [] \<or>
   added_adapters (snd (snd (pca954x_probe K e))) =
     added_adapters (snd (snd (probe_tail K e (probe_data K e))))"
  by (cases "reset_gpio e")
     (simp_all add: pca954x_probe_def Let_def case_prod_beta prepend_events_def probe_reset_def)

text \<open>
  Claim C8. Every chip of the catalogue has 2, 4 or 8 channels. The number of channel
  adapters \<^verbatim>\<open>pca954x_probe\<close> requests from the mux core is at most the channel count of the
  resolved chip, hence at most \<open>PCA954X_MAX_NCHANS\<close>, and at most \<^verbatim>\<open>num_modes\<close> when
  platform data is given. (The adapters built are those requested with success, so the
  bounds hold for them too.)
\<close>

theorem probe_channel_bound:
  "unat (nchans (chips K t)) \<in> {2, 4, 8} \<and>
   length (added_adapters (snd (snd (pca954x_probe K e)))) \<le> unat (nchans (probe_chip K e)) \<and>
   length (added_adapters (snd (snd (pca954x_probe K e)))) \<le> PCA954X_MAX_NCHANS \<and>
   (\<forall>pdata. platdata e = Some pdata \<longrightarrow>
      length (added_adapters (snd (snd (pca954x_probe K e)))) \<le> nat (num_modes pdata))"
proof -
  obtain t' where t': "probe_chip K e = chips K t'"
    using probe_chip_catalog by blast
  have n8: "unat (nchans (probe_chip K e)) \<le> 8"
    using catalog_nchans_le [of K t'] t' by simp
  have c: "chip (probe_data K e) = probe_chip K e"
    by (simp add: probe_data_def)
  have a: "length (added_adapters (snd (snd (pca954x_probe K e)))) \<le> unat (nchans (probe_chip K e))"
    using probe_added [of K e] probe_tail_count [of K e "probe_data K e"] c by auto
  have b: "platdata e = Some pdata \<Longrightarrow>
      length (added_adapters (snd (snd (pca954x_probe K e)))) \<le> nat (num_modes pdata)" for pdata
    using probe_added [of K e] probe_tail_count_pdata [of e pdata K "probe_data K e"] by auto
  show ?thesis
    using a b n8 chips_nchans [of K t] by (simp add: PCA954X_MAX_NCHANS_def)
qed

theorem probe_channel_bound_witness:
  "platdata (quiet_env\<lparr>platdata := Some pdata3\<rparr>) = Some pdata3 \<and>
   added_adapters (snd (snd (pca954x_probe linux_consts (quiet_env\<lparr>platdata := Some pdata3\<rparr>))))
     = [0, 1, 2] \<and>
   length (added_adapters (snd (snd (pca954x_probe linux_consts
     (quiet_env\<lparr>platdata := Some pdata3\<rparr>))))) \<le> nat (num_modes pdata3)"
proof -
  have ev: "added_adapters (snd (snd (pca954x_probe linux_consts
              (quiet_env\<lparr>platdata := Some pdata3\<rparr>)))) = [0, 1, 2]"
    by code_simp
  have pd: "platdata (quiet_env\<lparr>platdata := Some pdata3\<rparr>) = Some pdata3"
    by simp
  show ?thesis
    using probe_channel_bound [of linux_consts pca_9545 "quiet_env\<lparr>platdata := Some pdata3\<rparr>"]
          ev pd
    by blast
qed

text \<open>
  Claim C6. Let the probe reach the identity check (the bus has the capability, the mux
  core was allocated, the reset line gave no error). If the resolved descriptor carries an
  identity and the identity read succeeds with a different manufacturer or part,
  \<^verbatim>\<open>pca954x_probe\<close> returns \<open>- ENODEV\<close>, yields no device instance and requests no channel
  adapter: it only reads the identity and logs a warning. If the read answers
  \<open>- EOPNOTSUPP\<close>, the probe goes on with \<open>probe_tail\<close> from the same state as it does for a
  descriptor with no identity, where the check is skipped; only the identity read itself
  is the difference.
\<close>

theorem probe_identity_check:
  assumes "check_functionality e" and "mux_alloc e" and "\<forall>err. reset_gpio e \<noteq> GPIO_ERR err"
  shows "(manufacturer_id (id' (probe_chip K e)) \<noteq> I2C_DEVICE_ID_NONE K \<and>
          get_device_id e = (0, ident) \<and>
          (manufacturer_id ident \<noteq> manufacturer_id (id' (probe_chip K e)) \<or>
           part_id ident \<noteq> part_id (id' (probe_chip K e))) \<longrightarrow>
            fst (pca954x_probe K e) = - ENODEV K \<and>
            fst (snd (pca954x_probe K e)) = None \<and>
            added_adapters (snd (snd (pca954x_probe K e))) = [] \<and>
            snd (snd (pca954x_probe K e)) =
              GPIOD_GET_RESET # probe_reset (reset_gpio e) @ [GET_DEVICE_ID, DEV_WARN]) \<and>
         (manufacturer_id (id' (probe_chip K e)) \<noteq> I2C_DEVICE_ID_NONE K \<and>
          fst (get_device_id e) = - EOPNOTSUPP K \<and> EOPNOTSUPP K \<noteq> 0 \<longrightarrow>
            pca954x_probe K e =
              prepend_events (GPIOD_GET_RESET # probe_reset (reset_gpio e) @ [GET_DEVICE_ID])
                (probe_tail K e (probe_data K e))) \<and>
         (manufacturer_id (id' (probe_chip K e)) = I2C_DEVICE_ID_NONE K \<longrightarrow>
            pca954x_probe K e =
              prepend_events (GPIOD_GET_RESET # probe_reset (reset_gpio e))
                (probe_tail K e (probe_data K e)))"
proof -
  have c: "chip (probe_data K e) = probe_chip K e"
    by (simp add: probe_data_def)
  show ?thesis
  proof (cases "reset_gpio e")
    case (GPIO_ERR err)
    with assms(3) show ?thesis by simp
  next
    case GPIO_NULL
    then show ?thesis
      using assms(1,2) c
      by (auto simp: pca954x_probe_def Let_def case_prod_beta probe_reset_def)
  next
    case GPIO_DESC
    then show ?thesis
      using assms(1,2) c
      by (auto simp: pca954x_probe_def Let_def case_prod_beta probe_reset_def)
  qed
qed

theorem probe_identity_check_witness:
  "check_functionality nxp_env \<and> mux_alloc nxp_env \<and> (\<forall>err. reset_gpio nxp_env \<noteq> GPIO_ERR err) \<and>
   manufacturer_id (id' (probe_chip linux_consts nxp_env)) \<noteq> I2C_DEVICE_ID_NONE linux_consts \<and>
   part_id \<lparr>manufacturer_id = 0, part_id = 0x10b, die_revision = 0\<rparr>
      \<noteq> part_id (id' (probe_chip linux_consts nxp_env)) \<and>
   pca954x_probe linux_consts
       (nxp_env\<lparr>get_device_id := (0, \<lparr>manufacturer_id = 0, part_id = 0x10b, die_revision = 0\<rparr>)\<rparr>)
     = (- 19, None, [GPIOD_GET_RESET, GET_DEVICE_ID, DEV_WARN]) \<and>
   EOPNOTSUPP linux_consts \<noteq> 0 \<and>
   fst (pca954x_probe linux_consts
       (nxp_env\<lparr>get_device_id := (- 95, \<lparr>manufacturer_id = 0, part_id = 0, die_revision = 0\<rparr>)\<rparr>))
     = 0 \<and>
   added_adapters (snd (snd (pca954x_probe linux_consts
       (nxp_env\<lparr>get_device_id := (- 95, \<lparr>manufacturer_id = 0, part_id = 0, die_revision = 0\<rparr>)\<rparr>))))
     = [0, 1, 2, 3, 4, 5, 6, 7] \<and>
   manufacturer_id (id' (probe_chip linux_consts quiet_env)) = I2C_DEVICE_ID_NONE linux_consts \<and>
   added_adapters (snd (snd (pca954x_probe linux_consts quiet_env))) = [0, 1, 2, 3]"
proof -
  let ?bad = "nxp_env\<lparr>get_device_id := (0, \<lparr>manufacturer_id = 0, part_id = 0x10b, die_revision = 0\<rparr>)\<rparr>"
  let ?uns = "nxp_env\<lparr>get_device_id := (- 95, \<lparr>manufacturer_id = 0, part_id = 0, die_revision = 0\<rparr>)\<rparr>"
  have reach: "check_functionality nxp_env" "mux_alloc nxp_env" "\<forall>err. reset_gpio nxp_env \<noteq> GPIO_ERR err"
    by (simp_all add: nxp_env_def quiet_env_def)
  have reach_bad: "check_functionality ?bad" "mux_alloc ?bad" "\<forall>err. reset_gpio ?bad \<noteq> GPIO_ERR err"
    using reach by simp_all
  have reach_uns: "check_functionality ?uns" "mux_alloc ?uns" "\<forall>err. reset_gpio ?uns \<noteq> GPIO_ERR err"
    using reach by simp_all
  have reach_q: "check_functionality quiet_env" "mux_alloc quiet_env" "\<forall>err. reset_gpio quiet_env \<noteq> GPIO_ERR err"
    by (simp_all add: quiet_env_def)
  have chip: "probe_chip linux_consts nxp_env = chips linux_consts pca_9848"
    "probe_chip linux_consts ?bad = chips linux_consts pca_9848"
    "probe_chip linux_consts ?uns = chips linux_consts pca_9848"
    "probe_chip linux_consts quiet_env = chips linux_consts pca_9545"
    by (simp_all add: probe_chip_def nxp_env_def quiet_env_def)
  have tail_uns: "probe_tail linux_consts ?uns (probe_data linux_consts ?uns) =
     (0, Some \<lparr>chip = chips linux_consts pca_9848, last_chan = 0, deselect = 0, client = 1,
               irq = None, irq_mask = 0, lock = False\<rparr>,
      [SMBUS_WRITE_BYTE 0, MUX_ADD_ADAPTER 0 0 0, MUX_ADD_ADAPTER 0 1 0, MUX_ADD_ADAPTER 0 2 0,
       MUX_ADD_ADAPTER 0 3 0, MUX_ADD_ADAPTER 0 4 0, MUX_ADD_ADAPTER 0 5 0,
       MUX_ADD_ADAPTER 0 6 0, MUX_ADD_ADAPTER 0 7 0, DEV_INFO 8])"
    by code_simp
  have tail_q: "added_adapters (snd (snd (probe_tail linux_consts quiet_env
                   (probe_data linux_consts quiet_env)))) = [0, 1, 2, 3]"
    by code_simp
  have none: "manufacturer_id (id' (chips linux_consts pca_9848)) \<noteq> I2C_DEVICE_ID_NONE linux_consts"
    "manufacturer_id (id' (chips linux_consts pca_9545)) = I2C_DEVICE_ID_NONE linux_consts"
    "part_id (id' (chips linux_consts pca_9848)) = 0x10a"
    by (simp_all add: linux_consts_def nxp_identity_def no_identity_def)
  have gpio: "reset_gpio ?bad = GPIO_NULL" "reset_gpio ?uns = GPIO_NULL" "reset_gpio quiet_env = GPIO_NULL"
    by (simp_all add: nxp_env_def quiet_env_def)
  have h1: "manufacturer_id (id' (probe_chip linux_consts ?bad)) \<noteq> I2C_DEVICE_ID_NONE linux_consts \<and>
      get_device_id ?bad = (0, \<lparr>manufacturer_id = 0, part_id = 0x10b, die_revision = 0\<rparr>) \<and>
      (manufacturer_id \<lparr>manufacturer_id = 0, part_id = 0x10b, die_revision = 0\<rparr>
         \<noteq> manufacturer_id (id' (probe_chip linux_consts ?bad)) \<or>
       part_id \<lparr>manufacturer_id = 0, part_id = 0x10b, die_revision = 0\<rparr>
         \<noteq> part_id (id' (probe_chip linux_consts ?bad)))"
    using none by (simp add: chip)
  have p1: "pca954x_probe linux_consts ?bad = (- 19, None, [GPIOD_GET_RESET, GET_DEVICE_ID, DEV_WARN])"
    using probe_identity_check [OF reach_bad, of linux_consts
            "\<lparr>manufacturer_id = 0, part_id = 0x10b, die_revision = 0\<rparr>",
            THEN conjunct1, rule_format, OF h1] gpio
    by (simp add: prod_eq_iff probe_reset_def linux_consts_def)
  have e95: "EOPNOTSUPP linux_consts \<noteq> 0" "- EOPNOTSUPP linux_consts = - 95"
    by (simp_all add: linux_consts_def)
  have h2: "manufacturer_id (id' (probe_chip linux_consts ?uns)) \<noteq> I2C_DEVICE_ID_NONE linux_consts \<and>
      fst (get_device_id ?uns) = - EOPNOTSUPP linux_consts \<and> EOPNOTSUPP linux_consts \<noteq> 0"
    using none e95 by (simp add: chip)
  have p2: "pca954x_probe linux_consts ?uns =
      prepend_events (GPIOD_GET_RESET # probe_reset (reset_gpio ?uns) @ [GET_DEVICE_ID])
        (probe_tail linux_consts ?uns (probe_data linux_consts ?uns))"
    by (rule probe_identity_check [OF reach_uns, of linux_consts,
            THEN conjunct2, THEN conjunct1, rule_format, OF h2])
  have h3: "manufacturer_id (id' (probe_chip linux_consts quiet_env)) = I2C_DEVICE_ID_NONE linux_consts"
    using none by (simp add: chip)
  have p3: "pca954x_probe linux_consts quiet_env =
      prepend_events (GPIOD_GET_RESET # probe_reset (reset_gpio quiet_env))
        (probe_tail linux_consts quiet_env (probe_data linux_consts quiet_env))"
    by (rule probe_identity_check [OF reach_q, of linux_consts,
            THEN conjunct2, THEN conjunct2, rule_format, OF h3])
  have r2: "fst (pca954x_probe linux_consts ?uns) = 0"
    "added_adapters (snd (snd (pca954x_probe linux_consts ?uns))) = [0, 1, 2, 3, 4, 5, 6, 7]"
    unfolding p2 tail_uns by (simp_all add: prepend_events_def gpio probe_reset_def)
  have r3: "added_adapters (snd (snd (pca954x_probe linux_consts quiet_env))) = [0, 1, 2, 3]"
    unfolding p3 using tail_q by (simp add: prepend_events_def case_prod_beta gpio probe_reset_def)
  show ?thesis
    using reach p1 r2 r3 e95(1) h1 h3 none
    by (simp add: chip)
qed

lemma irq_setup_last_chan:
  "last_chan (fst (snd (pca954x_irq_setup K e data))) = last_chan data"
  by (simp add: pca954x_irq_setup_def Let_def case_prod_beta)

lemma probe_tail_first_call:
  "take 1 (snd (snd (probe_tail K e d))) = [SMBUS_WRITE_BYTE 0]"
  by (simp add: probe_tail_def Let_def case_prod_beta)

lemma probe_tail_last_chan:
  "fst (snd (probe_tail K e d)) = Some dev \<Longrightarrow> last_chan dev = 0"
  using irq_setup_last_chan [of K e "d\<lparr>last_chan := 0\<rparr>"]
  by (auto simp: probe_tail_def Let_def case_prod_beta split: if_splits)

text \<open>
  Claim C7. \<^verbatim>\<open>pca954x_resume\<close> makes one call, the write of 0 to the register, returns
  its result and sets \<open>last_chan\<close> to 0. It requests or deletes no channel adapter and
  touches no interrupt mapping, and every other field of the device state, the interrupt
  domain and the deselect mask among them, keeps its value. The call is the one
  \<open>probe_tail\<close> starts with, and \<open>last_chan\<close> is left as a successful probe leaves it.
\<close>

theorem resume_reinitialises:
  "fst (pca954x_resume e data) = smbus_write_byte e 0 \<and>
   snd (snd (pca954x_resume e data)) = [SMBUS_WRITE_BYTE 0] \<and>
   fst (snd (pca954x_resume e data)) = data\<lparr>last_chan := 0\<rparr> \<and>
   last_chan (fst (snd (pca954x_resume e data))) = 0 \<and>
   chip (fst (snd (pca954x_resume e data))) = chip data \<and>
   deselect (fst (snd (pca954x_resume e data))) = deselect data \<and>
   irq (fst (snd (pca954x_resume e data))) = irq data \<and>
   added_adapters (snd (snd (pca954x_resume e data))) = [] \<and>
   take 1 (snd (snd (probe_tail K e' d))) = snd (snd (pca954x_resume e data)) \<and>
   (\<forall>dev. fst (snd (probe_tail K e' d)) = Some dev \<longrightarrow>
      last_chan dev = last_chan (fst (snd (pca954x_resume e data))))"
  using probe_tail_last_chan [of K e' d] probe_tail_first_call [of K e' d]
  by (simp add: pca954x_resume_def Let_def)

theorem resume_reinitialises_witness:
  "fst (snd (probe_tail linux_consts quiet_env (probe_data linux_consts quiet_env))) =
     Some ((sample_dev pca_9545)\<lparr>last_chan := 0\<rparr>) \<and>
   pca954x_resume quiet_env ((sample_dev pca_9545)\<lparr>last_chan := 4\<rparr>) =
     (0, (sample_dev pca_9545)\<lparr>last_chan := 0\<rparr>, [SMBUS_WRITE_BYTE 0])"
proof -
  have t: "fst (snd (probe_tail linux_consts quiet_env (probe_data linux_consts quiet_env))) =
     Some ((sample_dev pca_9545)\<lparr>last_chan := 0\<rparr>)"
    by code_simp
  have q: "smbus_write_byte quiet_env 0 = 0"
    by (simp add: quiet_env_def)
  show ?thesis
    using t q
      resume_reinitialises [of quiet_env "(sample_dev pca_9545)\<lparr>last_chan := 4\<rparr>"
         linux_consts quiet_env "probe_data linux_consts quiet_env"]
    by (simp add: prod_eq_iff)
qed

end
